theory Spec2Isabelle
  imports Main "HOL-Library.AList"
begin

section \<open>Go string primitives used by the pattern matcher\<close>

text \<open>
  Go strings are byte sequences; they are modelled as \<open>string\<close> (a list of bytes).
  The functions below follow package \<open>strings\<close> of the Go standard library for the
  argument shapes the repository uses.
\<close>

definition HasPrefix :: "string \<Rightarrow> string \<Rightarrow> bool" where
  "HasPrefix s p = (take (length p) s = p)"

definition HasSuffix :: "string \<Rightarrow> string \<Rightarrow> bool" where
  "HasSuffix s p = (length p \<le> length s \<and> drop (length s - length p) s = p)"

definition TrimPrefix :: "string \<Rightarrow> string \<Rightarrow> string" where
  "TrimPrefix s p = (if HasPrefix s p then drop (length p) s else s)"

definition TrimSuffix :: "string \<Rightarrow> string \<Rightarrow> string" where
  "TrimSuffix s p = (if HasSuffix s p then take (length s - length p) s else s)"

text \<open>\<open>strings.Index\<close>: the offset of the first occurrence of \<open>sub\<close>, or \<open>-1\<close>.\<close>

fun Index :: "string \<Rightarrow> string \<Rightarrow> int" where
  "Index [] sub = (if sub = [] then 0 else - 1)"
| "Index (c # cs) sub =
     (if HasPrefix (c # cs) sub then 0
      else (let r = Index cs sub in if r < 0 then - 1 else r + 1))"

definition Contains :: "string \<Rightarrow> string \<Rightarrow> bool" where
  "Contains s sub = (0 \<le> Index s sub)"

lemma Index_bound: "0 \<le> Index s sub \<Longrightarrow> nat (Index s sub) + length sub \<le> length s"
proof (induction s)
  case Nil
  then show ?case by (simp split: if_splits)
next
  case (Cons c cs)
  show ?case
  proof (cases "HasPrefix (c # cs) sub")
    case True
    then have "length (take (length sub) (c # cs)) = length sub"
      unfolding HasPrefix_def by simp
    then have "length sub \<le> length (c # cs)"
      by (simp only: length_take)
    with True show ?thesis by simp
  next
    case False
    with Cons.prems have r: "0 \<le> Index cs sub"
      by (simp add: Let_def split: if_splits)
    from Cons.IH [OF r] False r show ?thesis
      by (simp add: Let_def nat_add_distrib)
  qed
qed

text \<open>
  \<open>strings.Split\<close> cuts at each non-overlapping occurrence of \<open>sep\<close>, left to right, as the
  library's \<open>genSplit\<close> loop does with \<open>Index\<close>. An empty separator explodes the string
  into its characters (bytes here; the repository never passes one).
\<close>

function Split :: "string \<Rightarrow> string \<Rightarrow> string list" where
  "Split s sep =
     (if sep = [] then map (\<lambda>c. [c]) s
      else (let m = Index s sep in
            if m < 0 then [s]
            else take (nat m) s # Split (drop (nat m + length sep) s) sep))"
  by pat_completeness auto
termination
proof (relation "measure (\<lambda>(s, sep). length s)")
  show "wf (measure (\<lambda>(s, sep). length s))" by simp
next
  fix s sep :: string and m :: int
  assume sep: "sep \<noteq> []" and m: "m = Index s sep" and nn: "\<not> m < 0"
  from Index_bound [of s sep] m nn have "nat m + length sep \<le> length s" by simp
  moreover from sep have "0 < length sep" by simp
  ultimately have "length s - (nat m + length sep) < length s" by arith
  then have "length (drop (nat m + length sep) s) < length s" by simp
  then show "((drop (nat m + length sep) s, sep), (s, sep)) \<in> measure (\<lambda>(s, sep). length s)"
    by simp
qed

declare Split.simps [simp del]

text \<open>
  \<open>strings.Count\<close>: the number of non-overlapping occurrences. For an empty \<open>substr\<close> Go
  returns the rune count plus one, which on ASCII text is the byte count plus one.
\<close>

function Count :: "string \<Rightarrow> string \<Rightarrow> int" where
  "Count s substr =
     (if substr = [] then int (length s) + 1
      else (let i = Index s substr in
            if i < 0 then 0
            else 1 + Count (drop (nat i + length substr) s) substr))"
  by pat_completeness auto
termination
proof (relation "measure (\<lambda>(s, substr). length s)")
  show "wf (measure (\<lambda>(s, substr). length s))" by simp
next
  fix s substr :: string and i :: int
  assume sep: "substr \<noteq> []" and m: "i = Index s substr" and nn: "\<not> i < 0"
  from Index_bound [of s substr] m nn have "nat i + length substr \<le> length s" by simp
  moreover from sep have "0 < length substr" by simp
  ultimately have "length s - (nat i + length substr) < length s" by arith
  then have "length (drop (nat i + length substr) s) < length s" by simp
  then show "((drop (nat i + length substr) s, substr), (s, substr))
               \<in> measure (\<lambda>(s, substr). length s)"
    by simp
qed

declare Count.simps [simp del]

text \<open>\<open>strings.Trim\<close>: strip every leading and trailing byte that is in the cutset.\<close>

definition Trim :: "string \<Rightarrow> string \<Rightarrow> string" where
  "Trim s cutset =
     rev (dropWhile (\<lambda>c. c \<in> set cutset) (rev (dropWhile (\<lambda>c. c \<in> set cutset) s)))"


lemma Split_not_Nil: "sep \<noteq> [] \<Longrightarrow> Split s sep \<noteq> []"
  by (subst Split.simps) (simp add: Let_def)

lemma Split_single_no_occurrence:
  assumes "sep \<noteq> []" and "length (Split s sep) = 1"
  shows "\<not> Contains s sep"
proof
  assume "Contains s sep"
  then have nn: "\<not> Index s sep < 0" by (simp add: Contains_def)
  have "Split s sep = take (nat (Index s sep)) s
          # Split (drop (nat (Index s sep) + length sep) s) sep"
    using assms(1) nn by (subst Split.simps) (simp add: Let_def)
  moreover have "Split (drop (nat (Index s sep) + length sep) s) sep \<noteq> []"
    using assms(1) by (rule Split_not_Nil)
  ultimately have "2 \<le> length (Split s sep)"
    by (cases "Split (drop (nat (Index s sep) + length sep) s) sep") simp_all
  with assms(2) show False by simp
qed

section \<open>Pattern matcher (\<open>internal/utils/pattern.go\<close>)\<close>

text \<open>
  The loop of \<open>matchSegmentWithWildcard\<close>: \<open>n\<close> is \<open>len(parts)\<close>, \<open>i\<close> the loop index and
  \<open>currentPos\<close> the offset into the segment already consumed.
\<close>

fun matchSegmentLoop :: "nat \<Rightarrow> string \<Rightarrow> nat \<Rightarrow> nat \<Rightarrow> string list \<Rightarrow> bool" where
  "matchSegmentLoop n segment i currentPos [] = True"
| "matchSegmentLoop n segment i currentPos (part # rest) =
     (if part = [] then matchSegmentLoop n segment (i + 1) currentPos rest
      else (let pos = Index (drop currentPos segment) part in
            if pos = - 1 then False
            else if i = 0 \<and> pos \<noteq> 0 then False
            else if int i = int n - 1
                    \<and> int currentPos + pos + int (length part) \<noteq> int (length segment)
                 then False
            else matchSegmentLoop n segment (i + 1) (currentPos + nat pos + length part) rest))"

definition matchSegmentWithWildcard :: "string \<Rightarrow> string \<Rightarrow> bool" where
  "matchSegmentWithWildcard pattern segment =
     (let parts = Split pattern ''*'' in
      if length parts = 1 \<and> hd parts = [] then True
      else matchSegmentLoop (length parts) segment 0 0 parts)"

definition matchPrefix :: "string \<Rightarrow> string \<Rightarrow> bool" where
  "matchPrefix pattern path =
     (let prefix = TrimSuffix pattern ''*'';
          prefix = TrimSuffix prefix ''/''
      in if prefix = [] then True else HasPrefix path prefix)"

definition matchSuffix :: "string \<Rightarrow> string \<Rightarrow> bool" where
  "matchSuffix pattern path =
     (let suffix = TrimPrefix pattern ''*'';
          suffix = TrimPrefix suffix ''/''
      in if suffix = [] then True else HasSuffix path suffix)"

text \<open>
  The segment-by-segment loop of \<open>MatchPattern\<close>. It runs only when both lists have the
  same length, so \<open>pathParts[i]\<close> is always in range; the last equation is never reached.
\<close>

fun matchSegments :: "string list \<Rightarrow> string list \<Rightarrow> bool" where
  "matchSegments [] pathParts = True"
| "matchSegments (patternPart # patternParts) (pathPart # pathParts) =
     (if patternPart = ''*'' then matchSegments patternParts pathParts
      else if Contains patternPart ''*'' then
        (if \<not> matchSegmentWithWildcard patternPart pathPart then False
         else matchSegments patternParts pathParts)
      else if patternPart \<noteq> pathPart then False
      else matchSegments patternParts pathParts)"
| "matchSegments (patternPart # patternParts) [] = False"

text \<open>
  The loop of \<open>matchWithDoubleWildcard\<close> over the interior parts \<open>parts[1 .. len-2]\<close>: each
  non-empty part, stripped of slashes, is looked for anywhere in the remaining path.
\<close>

fun matchMiddleParts :: "string \<Rightarrow> string list \<Rightarrow> bool" where
  "matchMiddleParts path [] = True"
| "matchMiddleParts path (part # rest) =
     (if part = [] then matchMiddleParts path rest
      else (let middlePart = Trim part ''/'' in
            if \<not> Contains path middlePart then False
            else matchMiddleParts path rest))"

text \<open>
  The two trimming steps of \<open>matchWithDoubleWildcard\<close>. Each returns \<open>None\<close> where the
  source returns \<open>false\<close>, and otherwise the path with the matched literal cut off.
\<close>

definition matchLeadingPart :: "string list \<Rightarrow> string \<Rightarrow> string option" where
  "matchLeadingPart parts path =
     (if hd parts \<noteq> [] then
        (let prefix = TrimSuffix (hd parts) ''/'' in
         if prefix \<noteq> [] \<and> \<not> HasPrefix path prefix then None
         else Some (TrimPrefix path prefix))
      else Some path)"

definition matchTrailingPart :: "string list \<Rightarrow> string \<Rightarrow> string option" where
  "matchTrailingPart parts path =
     (if 1 < length parts \<and> last parts \<noteq> [] then
        (let suffix = TrimPrefix (last parts) ''/'' in
         if suffix \<noteq> [] \<and> \<not> HasSuffix path suffix then None
         else Some (TrimSuffix path suffix))
      else Some path)"

function MatchPattern :: "string \<Rightarrow> string \<Rightarrow> bool"
  and matchWithDoubleWildcard :: "string \<Rightarrow> string \<Rightarrow> bool" where
  "MatchPattern pattern path =
     (if pattern = path then True
      else if \<not> Contains pattern ''*'' then pattern = path
      else if Contains pattern ''**'' then matchWithDoubleWildcard pattern path
      else (let patternParts = Split pattern ''/'';
                pathParts = Split path ''/''
            in if length patternParts \<noteq> length pathParts then
                 (if 0 < length patternParts \<and> HasSuffix (last patternParts) ''*''
                  then matchPrefix pattern path
                  else if 0 < length patternParts \<and> HasPrefix (hd patternParts) ''*''
                  then matchSuffix pattern path
                  else False)
               else matchSegments patternParts pathParts))"
| "matchWithDoubleWildcard pattern path =
     (let parts = Split pattern ''**'' in
      if length parts = 1 then MatchPattern pattern path
      else
        (case matchLeadingPart parts path of
           None \<Rightarrow> False
         | Some path \<Rightarrow>
            (case matchTrailingPart parts path of
               None \<Rightarrow> False
             | Some path \<Rightarrow>
                if 2 < length parts then matchMiddleParts path (butlast (tl parts))
                else True)))"
  by pat_completeness auto
termination
proof (relation "measure (\<lambda>x. case x of
          Inl (pattern, path) \<Rightarrow> (if Contains pattern ''**'' then 3 else 1)
        | Inr (pattern, path) \<Rightarrow> (2::nat))")
  show "wf (measure (\<lambda>x. case x of
          Inl (pattern, path) \<Rightarrow> (if Contains pattern ''**'' then 3 else 1)
        | Inr (pattern, path) \<Rightarrow> (2::nat)))"
    by simp
next
  fix pattern path :: string
  assume "Contains pattern ''**''"
  then show "(Inr (pattern, path), Inl (pattern, path))
        \<in> measure (\<lambda>x. case x of
            Inl (pattern, path) \<Rightarrow> (if Contains pattern ''**'' then 3 else 1)
          | Inr (pattern, path) \<Rightarrow> (2::nat))"
    by simp
next
  fix pattern path :: string and parts :: "string list"
  assume "parts = Split pattern ''**''" and "length parts = 1"
  then have "\<not> Contains pattern ''**''"
    using Split_single_no_occurrence [of "''**''" pattern] by simp
  then show "(Inl (pattern, path), Inr (pattern, path))
        \<in> measure (\<lambda>x. case x of
            Inl (pattern, path) \<Rightarrow> (if Contains pattern ''**'' then 3 else 1)
          | Inr (pattern, path) \<Rightarrow> (2::nat))"
    by simp
qed

declare MatchPattern.simps [simp del] matchWithDoubleWildcard.simps [simp del]

text \<open>
  The position penalties of \<open>GetPatternPriority\<close>: \<open>n\<close> is \<open>len(parts)\<close> and \<open>i\<close> the index
  of the part at the head of the list.
\<close>

fun positionPenalty :: "nat \<Rightarrow> nat \<Rightarrow> string list \<Rightarrow> int \<Rightarrow> int" where
  "positionPenalty n i [] priority = priority"
| "positionPenalty n i (part # rest) priority =
     (if part = ''*'' then positionPenalty n (i + 1) rest (priority - (int n - int i) * 10)
      else if Contains part ''*'' then
        positionPenalty n (i + 1) rest (priority - (int n - int i) * 5)
      else positionPenalty n (i + 1) rest priority)"

text \<open>
  Go's \<open>int\<close> is 64 bits wide; every value computed here is bounded by a small multiple of
  the pattern's length, so the arithmetic is modelled on unbounded integers.
\<close>

definition GetPatternPriority :: "string \<Rightarrow> int" where
  "GetPatternPriority pattern =
     (if \<not> Contains pattern ''*'' then 1000
      else if Contains pattern ''**'' then
        (let doubleWildcardCount = Count pattern ''**'';
             priority = 300 - doubleWildcardCount * 50;
             singleWildcardCount = Count pattern ''*'' - doubleWildcardCount * 2;
             priority = priority - singleWildcardCount * 20
         in priority)
      else if HasSuffix pattern ''*'' then
        (let prefixLen = int (length (TrimSuffix pattern ''*'')) in 150 + prefixLen)
      else if HasPrefix pattern ''*'' then
        (let suffixLen = int (length (TrimPrefix pattern ''*'')) in 100 + suffixLen)
      else
        (let wildcardCount = Count pattern ''*'';
             priority = 700 - wildcardCount * 100;
             parts = Split pattern ''/'';
             priority = positionPenalty (length parts) 0 parts priority;
             priority = (if priority < 0 then 1 else priority)
         in priority))"

definition IsValidPattern :: "string \<Rightarrow> bool" where
  "IsValidPattern pattern =
     (if pattern = [] then False
      else if \<not> HasPrefix pattern ''/'' then False
      else if Contains pattern ''//'' then False
      else True)"

definition NormalizePattern :: "string \<Rightarrow> string" where
  "NormalizePattern pattern =
     (let pattern = (if \<not> HasPrefix pattern ''/'' then ''/'' @ pattern else pattern);
          pattern = (if 1 < length pattern \<and> HasSuffix pattern ''/''
                     then TrimSuffix pattern ''/'' else pattern)
      in pattern)"

section \<open>Wire protocol and store records\<close>

text \<open>
  The server's package \<open>protocol\<close>: the frame types and the operations are string
  constants of the types \<open>MessageType\<close> and \<open>Operation\<close>.
\<close>

type_synonym MessageType = string
type_synonym Operation = string

definition MessageTypeControl :: MessageType where "MessageTypeControl = ''CONTROL''"
definition MessageTypeMessage :: MessageType where "MessageTypeMessage = ''MESSAGE''"
definition MessageTypeACK :: MessageType where "MessageTypeACK = ''ACK''"
definition MessageTypeError :: MessageType where "MessageTypeError = ''ERROR''"

definition OpRegister :: Operation where "OpRegister = ''REGISTER''"
definition OpRegisterAck :: Operation where "OpRegisterAck = ''REGISTER_ACK''"
definition OpRouteSync :: Operation where "OpRouteSync = ''ROUTE_SYNC''"
definition OpRouteSyncAck :: Operation where "OpRouteSyncAck = ''ROUTE_SYNC_ACK''"
definition OpRequest :: Operation where "OpRequest = ''REQUEST''"
definition OpResponse :: Operation where "OpResponse = ''RESPONSE''"
definition OpACK :: Operation where "OpACK = ''ACK''"
definition OpPing :: Operation where "OpPing = ''PING''"
definition OpPong :: Operation where "OpPong = ''PONG''"
definition OpCancel :: Operation where "OpCancel = ''CANCEL''"
definition OpError :: Operation where "OpError = ''ERROR''"

text \<open>
  \<open>protocol.Message\<close>. \<open>MsgID\<close> is a nullable pointer. \<open>Payload\<close> is a \<open>json.RawMessage\<close>:
  on a received frame \<open>'p\<close> is the raw JSON text, which \<open>ParsePayload\<close> hands to
  \<open>json.Unmarshal\<close>; on a frame the server builds, \<open>NewMessage\<close> encodes a payload struct,
  and the model keeps that struct as the payload (\<open>'p\<close> is then the type of payloads
  sent, and the encoding of these plain structs does not fail).
\<close>

record 'p Message =
  Type :: MessageType
  Op :: Operation
  MsgID :: "string option"
  ClientID :: string
  TS :: int
  Payload :: 'p

text \<open>
  \<open>protocol.RequestPayload\<close>; its \<open>Body\<close> is an \<open>interface{}\<close> that the proxy fills with the
  request body as a string.
\<close>

record RequestPayload =
  URLSuffix :: string
  HTTPMethod :: string
  Headers :: "string \<rightharpoonup> string"
  Params :: "string \<rightharpoonup> string"
  Body :: string
  TimeoutMS :: int
  TargetsJSON :: string
  DeliveryPolicy :: string
  RouteMode :: string

text \<open>
  \<open>protocol.ResponsePayload\<close>. \<open>respHeaders\<close> is the map \<open>Headers\<close>, given as the sequence of
  its entries a \<open>range\<close> loop visits. The body is an \<open>interface{}\<close>: \<open>None\<close> is \<open>nil\<close>,
  otherwise the decoded value as text.
\<close>

record ResponsePayload =
  HTTPStatus :: int
  respHeaders :: "(string \<times> string) list"
  respBody :: "string option"
  LatencyMS :: int
  Error :: "string option"

record RegisterPayload =
  regAuthToken :: string
  Version :: string
  LocalIPs :: "string list"

record ACKPayload =
  ackMsgID :: string
  Success :: bool
  ackMessage :: string

record ErrorPayload =
  Code :: string
  errMessage :: string
  Details :: string

text \<open>The payloads of the frames the server sends.\<close>

datatype out_payload =
    PingOut int
  | PongOut int
  | RegisterAckOut bool string
  | RequestOut RequestPayload

text \<open>
  The JSON decoders of \<open>encoding/json\<close> are library code: the model takes them as
  parameters. Each returns \<open>None\<close> where the library returns an error.
\<close>

record codec =
  unmarshalMessage :: "string \<Rightarrow> string Message option"
  parseRegister :: "string \<Rightarrow> RegisterPayload option"
  parsePing :: "string \<Rightarrow> int option"
  parsePong :: "string \<Rightarrow> int option"
  parseResponse :: "string \<Rightarrow> ResponsePayload option"
  parseACK :: "string \<Rightarrow> ACKPayload option"
  parseError :: "string \<Rightarrow> ErrorPayload option"

text \<open>Rows of the store (\<open>internal/database/models.go\<close>), with the columns the core reads or writes.\<close>

record Client =
  clientRowID :: string
  AuthToken :: string
  Status :: string
  Enabled :: int
  LastSeenTS :: "int option"
  clientLocalIPs :: "string list"

record ServerRoute =
  ID :: int
  routeURLSuffix :: string
  routeClientID :: string
  routeTargetsJSON :: string
  routeDeliveryPolicy :: string
  routeRouteMode :: string
  routeEnabled :: int

definition IsEnabled :: "ServerRoute \<Rightarrow> bool" where
  "IsEnabled sr = (routeEnabled sr = 1)"

definition MessageStatePending :: string where "MessageStatePending = ''pending''"
definition MessageStateProcessing :: string where "MessageStateProcessing = ''processing''"
definition MessageStateDone :: string where "MessageStateDone = ''done''"
definition MessageStateFailed :: string where "MessageStateFailed = ''failed''"

record PendingMessage =
  pmClientID :: string
  pmURLSuffix :: string
  State :: string
  pmCreatedAt :: int
  LastUpdate :: int
  ResponseMeta :: "ResponsePayload option"

text \<open>
  The repository: three tables keyed as in the schema. When \<open>available\<close> is false every
  call returns an error: a read fails and a write changes nothing.
\<close>

record Repository =
  available :: bool
  clientRows :: "(string \<times> Client) list"
  routeRows :: "ServerRoute list"
  pendingRows :: "(string \<times> PendingMessage) list"

definition GetClient :: "Repository \<Rightarrow> string \<Rightarrow> Client option" where
  "GetClient db cid = (if available db then map_of (clientRows db) cid else None)"

definition ListServerRoutes :: "Repository \<Rightarrow> ServerRoute list option" where
  "ListServerRoutes db = (if available db then Some (routeRows db) else None)"

text \<open>An SQL \<open>UPDATE ... WHERE key = k\<close>: rewrites the row when it exists.\<close>

definition updateRow :: "'k \<Rightarrow> ('v \<Rightarrow> 'v) \<Rightarrow> ('k \<times> 'v) list \<Rightarrow> ('k \<times> 'v) list" where
  "updateRow k f rows = map (\<lambda>(k', v). if k' = k then (k', f v) else (k', v)) rows"

definition UpdateClientStatus :: "Repository \<Rightarrow> int \<Rightarrow> string \<Rightarrow> string \<Rightarrow> Repository" where
  "UpdateClientStatus db now cid status =
     (if available db then
        db\<lparr>clientRows := updateRow cid (\<lambda>c. c\<lparr>Status := status, LastSeenTS := Some now\<rparr>)
                             (clientRows db)\<rparr>
      else db)"


definition UpdateClientLocalIPs :: "Repository \<Rightarrow> string \<Rightarrow> string list \<Rightarrow> Repository" where
  "UpdateClientLocalIPs db cid ips =
     (if available db then
        db\<lparr>clientRows := updateRow cid (\<lambda>c. c\<lparr>clientLocalIPs := ips\<rparr>) (clientRows db)\<rparr>
      else db)"

text \<open>\<open>INSERT\<close> on the primary key \<open>msg_id\<close>: an existing key is a constraint error.\<close>

definition CreatePendingMessage ::
    "Repository \<Rightarrow> int \<Rightarrow> string \<Rightarrow> PendingMessage \<Rightarrow> Repository" where
  "CreatePendingMessage db now mid pm =
     (if available db \<and> map_of (pendingRows db) mid = None then
        db\<lparr>pendingRows := pendingRows db @ [(mid, pm\<lparr>pmCreatedAt := now, LastUpdate := now\<rparr>)]\<rparr>
      else db)"

definition UpdatePendingMessageState ::
    "Repository \<Rightarrow> int \<Rightarrow> string \<Rightarrow> string \<Rightarrow> Repository" where
  "UpdatePendingMessageState db now mid state =
     (if available db then
        db\<lparr>pendingRows := updateRow mid (\<lambda>pm. pm\<lparr>State := state, LastUpdate := now\<rparr>)
                              (pendingRows db)\<rparr>
      else db)"

definition UpdatePendingMessageResponse ::
    "Repository \<Rightarrow> int \<Rightarrow> string \<Rightarrow> string \<Rightarrow> ResponsePayload \<Rightarrow> Repository" where
  "UpdatePendingMessageResponse db now mid state meta =
     (if available db then
        db\<lparr>pendingRows :=
             updateRow mid (\<lambda>pm. pm\<lparr>State := state, ResponseMeta := Some meta, LastUpdate := now\<rparr>)
               (pendingRows db)\<rparr>
      else db)"

section \<open>Connection manager (package \<open>websocket\<close> of the server)\<close>

text \<open>
  A \<open>*ClientConn\<close> and a \<open>*PendingContext\<close> are pointers: the reader and writer goroutines
  and the waiting HTTP handler keep theirs after the manager's table has dropped or
  replaced its own. The model keeps the objects in a store indexed by address and the
  tables hold addresses. \<open>connDone\<close> and \<open>ctxDone\<close> say that the object's context has been
  cancelled (or, for a pending request, that its deadline has passed).
\<close>

record ClientConn =
  clientID :: string
  sendQueue :: "out_payload Message list"
  lastSeen :: int
  lastActivity :: int
  messageCount :: int
  adaptiveInterval :: int
  networkQuality :: string
  rttSamples :: "int list"
  connDone :: bool

text \<open>
  \<open>resultCh\<close> is a channel of capacity one: the list holds what is buffered, and an
  element \<open>None\<close> is a \<open>nil\<close> response pointer.
\<close>

record PendingContext =
  msgID :: string
  resultCh :: "ResponsePayload option list"
  ctxDone :: bool
  createdAt :: int

record ConnectionStats =
  TotalConnections :: int
  ActiveConnections :: int
  LastUpdated :: int

record Manager =
  SendQueueSize :: nat
  RequestTimeout :: int
  PingInterval :: int
  baseHeartbeatInterval :: int
  db :: Repository
  clients :: "(string \<times> nat) list"
  conns :: "nat \<Rightarrow> ClientConn"
  pending :: "(string \<times> nat) list"
  pendings :: "nat \<Rightarrow> PendingContext"
  heartbeatQueue :: "(string \<times> int) list"
  stats :: ConnectionStats
  statusTasks :: "(string \<times> string) list"

text \<open>\<open>registerClient\<close>: \<open>client\<close> is the address of the connection object.\<close>

definition registerClient :: "int \<Rightarrow> Manager \<Rightarrow> nat \<Rightarrow> Manager" where
  "registerClient now m client =
     (let cs = AList.update (clientID (conns m client)) client (clients m) in
      m\<lparr>clients := cs,
        stats := (stats m)\<lparr>TotalConnections := TotalConnections (stats m) + 1,
                           ActiveConnections := int (length cs),
                           LastUpdated := now\<rparr>,
        conns := (conns m)(client := (conns m client)
                     \<lparr>adaptiveInterval := baseHeartbeatInterval m,
                      networkQuality := ''unknown'',
                      rttSamples := []\<rparr>)\<rparr>)"

text \<open>
  \<open>unregisterClient\<close>: the status update is handed to the worker pool; \<open>poolAccepts\<close> says
  whether \<open>Submit\<close> found room in the pool's queue.
\<close>

definition unregisterClient :: "bool \<Rightarrow> Manager \<Rightarrow> string \<Rightarrow> Manager" where
  "unregisterClient poolAccepts m cid =
     (let m = m\<lparr>clients := AList.delete cid (clients m)\<rparr> in
      if poolAccepts then m\<lparr>statusTasks := statusTasks m @ [(cid, ''offline'')]\<rparr> else m)"

definition cancelConn :: "Manager \<Rightarrow> nat \<Rightarrow> Manager" where
  "cancelConn m client = m\<lparr>conns := (conns m)(client := (conns m client)\<lparr>connDone := True\<rparr>)\<rparr>"

definition IsClientConnected :: "Manager \<Rightarrow> string \<Rightarrow> bool" where
  "IsClientConnected m cid = (map_of (clients m) cid \<noteq> None)"

definition DisconnectClient :: "Manager \<Rightarrow> string \<Rightarrow> Manager option" where
  "DisconnectClient m cid =
     (case map_of (clients m) cid of
        None \<Rightarrow> None
      | Some client \<Rightarrow> Some (cancelConn m client))"

text \<open>
  \<open>handleConnection\<close> up to the start of the two goroutines: the connection object is
  allocated at the fresh address \<open>client\<close> and registered.
\<close>

definition newClientConn :: "int \<Rightarrow> int \<Rightarrow> string \<Rightarrow> ClientConn" where
  "newClientConn now pingInterval cid =
     \<lparr>clientID = cid, sendQueue = [], lastSeen = now, lastActivity = 0, messageCount = 0,
      adaptiveInterval = pingInterval, networkQuality = [], rttSamples = [],
      connDone = False\<rparr>"

definition handleConnection_enter :: "int \<Rightarrow> Manager \<Rightarrow> nat \<Rightarrow> string \<Rightarrow> Manager" where
  "handleConnection_enter now m client cid =
     registerClient now
       (m\<lparr>conns := (conns m)(client := newClientConn now (PingInterval m) cid)\<rparr>) client"

text \<open>The deferred cleanup of \<open>handleConnection\<close>, run when both goroutines have exited.\<close>

definition handleConnection_exit :: "bool \<Rightarrow> Manager \<Rightarrow> nat \<Rightarrow> Manager" where
  "handleConnection_exit poolAccepts m client =
     unregisterClient poolAccepts (cancelConn m client) (clientID (conns m client))"

datatype send_error = ClientNotFound | SendQueueFull

text \<open>
  \<open>SendToClient\<close>: a non-blocking send on the connection's queue, whose capacity is the
  configured \<open>SendQueueSize\<close>.
\<close>

definition SendToClient ::
    "Manager \<Rightarrow> string \<Rightarrow> out_payload Message \<Rightarrow> send_error + Manager" where
  "SendToClient m cid msg =
     (case map_of (clients m) cid of
        None \<Rightarrow> Inl ClientNotFound
      | Some client \<Rightarrow>
          (let c = conns m client in
           if length (sendQueue c) < SendQueueSize m then
             Inr (m\<lparr>conns := (conns m)(client := c\<lparr>sendQueue := sendQueue c @ [msg],
                                                     messageCount := messageCount c + 1\<rparr>)\<rparr>)
           else Inl SendQueueFull))"

definition NewMessage ::
    "int \<Rightarrow> MessageType \<Rightarrow> Operation \<Rightarrow> string \<Rightarrow> string option \<Rightarrow> 'p
       \<Rightarrow> 'p Message" where
  "NewMessage now msgType op cid mid payload =
     \<lparr>Type = msgType, Op = op, MsgID = mid, ClientID = cid, TS = now,
      Payload = payload\<rparr>"

text \<open>A sender that only logs a failed send: the manager is unchanged on error.\<close>

definition sendOrLog :: "Manager \<Rightarrow> string \<Rightarrow> out_payload Message \<Rightarrow> Manager" where
  "sendOrLog m cid msg = (case SendToClient m cid msg of Inl e \<Rightarrow> m | Inr m' \<Rightarrow> m')"

definition sendRegisterResponse :: "int \<Rightarrow> Manager \<Rightarrow> nat \<Rightarrow> bool \<Rightarrow> string \<Rightarrow> Manager" where
  "sendRegisterResponse now m client success message =
     sendOrLog m (clientID (conns m client))
       (NewMessage now MessageTypeControl OpRegisterAck (clientID (conns m client)) None
          (RegisterAckOut success message))"

definition sendPong :: "int \<Rightarrow> Manager \<Rightarrow> string \<Rightarrow> int \<Rightarrow> Manager" where
  "sendPong now m cid timestamp =
     sendOrLog m cid (NewMessage now MessageTypeControl OpPong cid None (PongOut timestamp))"

definition sendProtocolPing :: "int \<Rightarrow> Manager \<Rightarrow> string \<Rightarrow> send_error + Manager" where
  "sendProtocolPing now m cid =
     SendToClient m cid (NewMessage now MessageTypeControl OpPing cid None (PingOut now))"

text \<open>
  \<open>NewManager\<close>: empty tables. The store of objects starts with unused placeholders; an
  address is given a real object when \<open>handleConnection\<close> or \<open>SendRequestAndWait\<close>
  allocates it.
\<close>

definition NewManager :: "nat \<Rightarrow> int \<Rightarrow> int \<Rightarrow> Repository \<Rightarrow> Manager" where
  "NewManager sendQueueSize requestTimeout pingInterval repo =
     \<lparr>SendQueueSize = sendQueueSize, RequestTimeout = requestTimeout,
      PingInterval = pingInterval, baseHeartbeatInterval = 30000,
      db = repo, clients = [], conns = (\<lambda>a. newClientConn 0 0 []),
      pending = [],
      pendings = (\<lambda>a. \<lparr>msgID = [], resultCh = [], ctxDone = False, createdAt = 0\<rparr>),
      heartbeatQueue = [],
      stats = \<lparr>TotalConnections = 0, ActiveConnections = 0, LastUpdated = 0\<rparr>,
      statusTasks = []\<rparr>"


section \<open>Frame handlers (package \<open>websocket\<close> of the server)\<close>

text \<open>
  A non-blocking send on a result channel, \<open>select { case ch <- v: default: }\<close>: the value
  is buffered when the one slot is free and dropped otherwise.
\<close>

definition trySend :: "PendingContext \<Rightarrow> ResponsePayload option \<Rightarrow> PendingContext" where
  "trySend p v = (if length (resultCh p) < 1 then p\<lparr>resultCh := resultCh p @ [v]\<rparr> else p)"

definition notifyPending :: "Manager \<Rightarrow> string \<Rightarrow> ResponsePayload \<Rightarrow> Manager" where
  "notifyPending m mid resp =
     (case map_of (pending m) mid of
        None \<Rightarrow> m
      | Some p \<Rightarrow> m\<lparr>pendings := (pendings m)(p := trySend (pendings m p) (Some resp))\<rparr>)"

text \<open>The heartbeat queue is a channel of capacity 1000; a full queue drops the update.\<close>

definition queueHeartbeat :: "Manager \<Rightarrow> string \<Rightarrow> int \<Rightarrow> Manager" where
  "queueHeartbeat m cid t =
     (if length (heartbeatQueue m) < 1000
      then m\<lparr>heartbeatQueue := heartbeatQueue m @ [(cid, t)]\<rparr> else m)"

definition touchLastSeen :: "Manager \<Rightarrow> nat \<Rightarrow> int \<Rightarrow> Manager" where
  "touchLastSeen m client now =
     m\<lparr>conns := (conns m)(client := (conns m client)\<lparr>lastSeen := now\<rparr>)\<rparr>"

definition handleRegister :: "codec \<Rightarrow> int \<Rightarrow> Manager \<Rightarrow> nat \<Rightarrow> string Message \<Rightarrow> Manager" where
  "handleRegister cd now m client msg =
     (case parseRegister cd (Payload msg) of
        None \<Rightarrow> sendRegisterResponse now m client False ''Invalid register payload''
      | Some registerPayload \<Rightarrow>
          (case GetClient (db m) (clientID (conns m client)) of
             None \<Rightarrow> sendRegisterResponse now m client False ''Client not found''
           | Some clientInfo \<Rightarrow>
               if Enabled clientInfo \<noteq> 1 then
                 sendRegisterResponse now m client False ''Client is disabled''
               else if regAuthToken registerPayload = [] then
                 sendRegisterResponse now m client False ''Invalid auth token''
               else if AuthToken clientInfo \<noteq> regAuthToken registerPayload then
                 sendRegisterResponse now m client False ''Invalid auth token''
               else
                 (let cid = clientID (conns m client);
                      m = m\<lparr>db := UpdateClientStatus (db m) now cid ''online''\<rparr>;
                      m = (if 0 < length (LocalIPs registerPayload)
                           then m\<lparr>db := UpdateClientLocalIPs (db m) cid
                                          (LocalIPs registerPayload)\<rparr>
                           else m)
                  in sendRegisterResponse now m client True ''Registration successful'')))"

definition handlePong :: "codec \<Rightarrow> int \<Rightarrow> Manager \<Rightarrow> nat \<Rightarrow> string Message \<Rightarrow> Manager" where
  "handlePong cd now m client msg =
     (case parsePong cd (Payload msg) of
        None \<Rightarrow> m
      | Some timestamp \<Rightarrow>
          queueHeartbeat (touchLastSeen m client now) (clientID (conns m client)) now)"

text \<open>\<open>now\<close> is in milliseconds; \<open>time.Now().Unix()\<close> is the same instant in seconds.\<close>

definition handlePing :: "codec \<Rightarrow> int \<Rightarrow> Manager \<Rightarrow> nat \<Rightarrow> string Message \<Rightarrow> Manager" where
  "handlePing cd now m client msg =
     (let timestamp =
            (if length (Payload msg) = 0 then now div 1000
             else (case parsePing cd (Payload msg) of
                     None \<Rightarrow> now div 1000
                   | Some t \<Rightarrow> t));
          cid = clientID (conns m client);
          m = touchLastSeen m client now;
          m = queueHeartbeat m cid now
      in sendPong now m cid timestamp)"

definition handleControlMessage ::
    "codec \<Rightarrow> int \<Rightarrow> Manager \<Rightarrow> nat \<Rightarrow> string Message \<Rightarrow> Manager" where
  "handleControlMessage cd now m client msg =
     (if Op msg = OpRegister then handleRegister cd now m client msg
      else if Op msg = OpPong then handlePong cd now m client msg
      else if Op msg = OpPing then handlePing cd now m client msg
      else m)"

definition handleACKMessage ::
    "codec \<Rightarrow> int \<Rightarrow> Manager \<Rightarrow> nat \<Rightarrow> string Message \<Rightarrow> Manager" where
  "handleACKMessage cd now m client msg =
     (case parseACK cd (Payload msg) of
        None \<Rightarrow> m
      | Some ackPayload \<Rightarrow>
          if Success ackPayload then
            m\<lparr>db := UpdatePendingMessageState (db m) now (ackMsgID ackPayload)
                      MessageStateProcessing\<rparr>
          else m)"

definition handleErrorMessage ::
    "codec \<Rightarrow> int \<Rightarrow> Manager \<Rightarrow> nat \<Rightarrow> string Message \<Rightarrow> Manager" where
  "handleErrorMessage cd now m client msg =
     (case parseError cd (Payload msg) of
        None \<Rightarrow> m
      | Some errorPayload \<Rightarrow>
          (case MsgID msg of
             None \<Rightarrow> m
           | Some mid \<Rightarrow>
               notifyPending
                 (m\<lparr>db := UpdatePendingMessageState (db m) now mid MessageStateFailed\<rparr>) mid
                 \<lparr>HTTPStatus = 500, respHeaders = [], respBody = None, LatencyMS = 0,
                  Error = Some (errMessage errorPayload)\<rparr>))"

text \<open>
  \<open>handleResponse\<close>. The response read from the frame is re-encoded for the store; it was
  decoded from JSON a moment before, so that encoding cannot fail.
\<close>

definition handleResponse ::
    "codec \<Rightarrow> int \<Rightarrow> Manager \<Rightarrow> nat \<Rightarrow> string Message \<Rightarrow> Manager" where
  "handleResponse cd now m client msg =
     (case MsgID msg of
        None \<Rightarrow> m
      | Some mid \<Rightarrow>
          (case parseResponse cd (Payload msg) of
             None \<Rightarrow> m
           | Some responsePayload \<Rightarrow>
               (let state = (if 400 \<le> HTTPStatus responsePayload
                                  \<or> Error responsePayload \<noteq> None
                             then MessageStateFailed else MessageStateDone);
                    m = m\<lparr>db := UpdatePendingMessageResponse (db m) now mid state
                                   responsePayload\<rparr>
                in notifyPending m mid responsePayload)))"

definition handleDataMessage ::
    "codec \<Rightarrow> int \<Rightarrow> Manager \<Rightarrow> nat \<Rightarrow> string Message \<Rightarrow> Manager" where
  "handleDataMessage cd now m client msg =
     (if Op msg = OpRequest then m
      else if Op msg = OpResponse then handleResponse cd now m client msg
      else m)"

text \<open>The WebSocket frame kinds of the \<open>gorilla/websocket\<close> library.\<close>

definition TextMessage :: int where "TextMessage = 1"
definition BinaryMessage :: int where "BinaryMessage = 2"
definition CloseMessage :: int where "CloseMessage = 8"
definition PingMessage :: int where "PingMessage = 9"
definition PongMessage :: int where "PongMessage = 10"

text \<open>
  \<open>MessageTask.Execute\<close>: the result is the \<open>Success\<close> flag of the task and the manager
  after the handler has run.
\<close>

definition Execute ::
    "codec \<Rightarrow> int \<Rightarrow> Manager \<Rightarrow> nat \<Rightarrow> int \<Rightarrow> string \<Rightarrow> bool \<times> Manager" where
  "Execute cd now m client messageType data =
     (if messageType = PingMessage then (True, touchLastSeen m client now)
      else if messageType = PongMessage then (True, touchLastSeen m client now)
      else if messageType = CloseMessage then (True, m)
      else if messageType = BinaryMessage then (True, m)
      else if messageType = TextMessage then
        (case unmarshalMessage cd data of
           None \<Rightarrow> (True, m)
         | Some msg \<Rightarrow>
             (if Type msg = MessageTypeControl then
                (True, handleControlMessage cd now m client msg)
              else if Type msg = MessageTypeMessage then
                (True, handleDataMessage cd now m client msg)
              else if Type msg = MessageTypeACK then
                (True, handleACKMessage cd now m client msg)
              else if Type msg = MessageTypeError then
                (True, handleErrorMessage cd now m client msg)
              else (True, m)))
      else (True, m))"

text \<open>
  \<open>handleMessage\<close> hands the frame to the worker pool. \<open>poolAccepts\<close> says whether
  \<open>Submit\<close> found room; a frame the pool refuses is logged and lost. The task runs on a
  worker later; the model runs it at once.
\<close>

definition handleMessage ::
    "codec \<Rightarrow> int \<Rightarrow> bool \<Rightarrow> Manager \<Rightarrow> nat \<Rightarrow> int \<Rightarrow> string \<Rightarrow> Manager" where
  "handleMessage cd now poolAccepts m client messageType data =
     (if poolAccepts then snd (Execute cd now m client messageType data) else m)"

text \<open>
  One round of the loop of \<open>clientReader\<close>. \<open>ReadFailed\<close> is an error from \<open>ReadMessage\<close>
  (the peer closed, the read deadline passed, the socket broke). The boolean of the
  result says whether the loop goes round again; the socket is closed once the loop has
  ended.
\<close>

datatype read_result = ReadFailed | ReadFrame int string

definition clientReader_step ::
    "codec \<Rightarrow> int \<Rightarrow> bool \<Rightarrow> Manager \<Rightarrow> nat \<Rightarrow> read_result \<Rightarrow> bool \<times> Manager" where
  "clientReader_step cd now poolAccepts m client r =
     (if connDone (conns m client) then (False, m)
      else (case r of
              ReadFailed \<Rightarrow> (False, cancelConn m client)
            | ReadFrame messageType messageBytes \<Rightarrow>
                (let m = m\<lparr>conns := (conns m)(client := (conns m client)
                                 \<lparr>lastSeen := now, lastActivity := now\<rparr>)\<rparr>
                 in (True, handleMessage cd now poolAccepts m client messageType
                             messageBytes))))"

section \<open>Pending requests (\<open>internal/websocket/request.go\<close>)\<close>

text \<open>
  The deferred cleanup of \<open>SendRequestAndWait\<close>: the entry leaves the table and the
  context is cancelled. The channel is closed after the entry is gone, so no sender can
  reach it any more; the model keeps no separate flag for that.
\<close>

definition cleanupPending :: "Manager \<Rightarrow> string \<Rightarrow> nat \<Rightarrow> Manager" where
  "cleanupPending m mid p =
     m\<lparr>pending := AList.delete mid (pending m),
       pendings := (pendings m)(p := (pendings m p)\<lparr>ctxDone := True\<rparr>)\<rparr>"

datatype wait_error =
    NotConnected
  | SendFailed send_error
  | NilResponse
  | RequestTimedOut

text \<open>
  \<open>SendRequestAndWait\<close>, first half, up to the \<open>select\<close>: \<open>mid\<close> is the fresh UUID and \<open>p\<close>
  the address of the new \<open>PendingContext\<close>. \<open>Inl\<close> is an error returned before waiting
  (the deferred cleanup has run by then), \<open>Inr\<close> the manager with the request registered
  and queued for the agent.
\<close>

definition SendRequestAndWait_send ::
    "int \<Rightarrow> Manager \<Rightarrow> string \<Rightarrow> string \<Rightarrow> nat \<Rightarrow> RequestPayload
       \<Rightarrow> (wait_error \<times> Manager) + Manager" where
  "SendRequestAndWait_send now m cid mid p requestPayload =
     (if \<not> IsClientConnected m cid then Inl (NotConnected, m)
      else
        (let requestMsg = NewMessage now MessageTypeMessage OpRequest cid (Some mid)
                            (RequestOut requestPayload);
             m = m\<lparr>pending := AList.update mid p (pending m),
                   pendings := (pendings m)(p := \<lparr>msgID = mid, resultCh = [], ctxDone = False,
                                                  createdAt = now\<rparr>)\<rparr>;
             pendingMsg = \<lparr>pmClientID = cid, pmURLSuffix = URLSuffix requestPayload,
                           State = MessageStatePending, pmCreatedAt = now, LastUpdate = now,
                           ResponseMeta = None\<rparr>;
             m = m\<lparr>db := CreatePendingMessage (db m) now mid pendingMsg\<rparr>
         in case SendToClient m cid requestMsg of
              Inl e \<Rightarrow> Inl (SendFailed e, cleanupPending m mid p)
            | Inr m' \<Rightarrow> Inr m'))"

text \<open>The deadline of the request's context passes (\<open>context.WithTimeout\<close>).\<close>

definition deadlineElapsed :: "Manager \<Rightarrow> nat \<Rightarrow> Manager" where
  "deadlineElapsed m p = m\<lparr>pendings := (pendings m)(p := (pendings m p)\<lparr>ctxDone := True\<rparr>)\<rparr>"

text \<open>
  \<open>SendRequestAndWait\<close>, second half: the \<open>select\<close> and the deferred cleanup. \<open>None\<close>
  means that neither case is ready and the caller stays blocked. When both are ready Go
  picks either; \<open>preferResult\<close> is that choice.
\<close>

definition SendRequestAndWait_wait ::
    "int \<Rightarrow> bool \<Rightarrow> Manager \<Rightarrow> nat
       \<Rightarrow> ((wait_error + ResponsePayload) \<times> Manager) option" where
  "SendRequestAndWait_wait now preferResult m p =
     (let pc = pendings m p; mid = msgID pc in
      case resultCh pc of
        response # rest \<Rightarrow>
          if ctxDone pc \<and> \<not> preferResult then
            Some (Inl RequestTimedOut,
                  cleanupPending
                    (m\<lparr>db := UpdatePendingMessageState (db m) now mid MessageStateFailed\<rparr>)
                    mid p)
          else
            (let m = m\<lparr>pendings := (pendings m)(p := pc\<lparr>resultCh := rest\<rparr>)\<rparr> in
             case response of
               None \<Rightarrow> Some (Inl NilResponse, cleanupPending m mid p)
             | Some r \<Rightarrow> Some (Inr r, cleanupPending m mid p))
      | [] \<Rightarrow>
          if ctxDone pc then
            Some (Inl RequestTimedOut,
                  cleanupPending
                    (m\<lparr>db := UpdatePendingMessageState (db m) now mid MessageStateFailed\<rparr>)
                    mid p)
          else None)"

text \<open>
  The two sweeps. \<open>cleanupExpiredPending\<close> (started by \<open>startBackgroundTasks\<close>) cancels
  and removes every entry older than the request timeout; \<open>CleanupExpiredPending\<close> (of
  \<open>request.go\<close>) offers a synthetic 504 response to every entry older than \<open>maxAge\<close> and
  removes it.
\<close>

fun cancelAll :: "(nat \<Rightarrow> PendingContext) \<Rightarrow> nat list \<Rightarrow> (nat \<Rightarrow> PendingContext)" where
  "cancelAll ps [] = ps"
| "cancelAll ps (p # rest) = cancelAll (ps(p := (ps p)\<lparr>ctxDone := True\<rparr>)) rest"

definition cleanupExpiredPending :: "int \<Rightarrow> Manager \<Rightarrow> Manager" where
  "cleanupExpiredPending now m =
     (let expired = filter (\<lambda>(mid, p). RequestTimeout m < now - createdAt (pendings m p))
                      (pending m)
      in m\<lparr>pendings := cancelAll (pendings m) (map snd expired),
           pending := filter (\<lambda>(mid, p). \<not> RequestTimeout m < now - createdAt (pendings m p))
                        (pending m)\<rparr>)"

fun offerTimeoutAll ::
    "(nat \<Rightarrow> PendingContext) \<Rightarrow> nat list \<Rightarrow> (nat \<Rightarrow> PendingContext)" where
  "offerTimeoutAll ps [] = ps"
| "offerTimeoutAll ps (p # rest) =
     offerTimeoutAll
       (ps(p := trySend (ps p)
                  (Some \<lparr>HTTPStatus = 504, respHeaders = [], respBody = None, LatencyMS = 0,
                         Error = Some ''Request timeout''\<rparr>))) rest"

definition CleanupExpiredPending :: "int \<Rightarrow> int \<Rightarrow> Manager \<Rightarrow> Manager" where
  "CleanupExpiredPending now maxAge m =
     (let expired = filter (\<lambda>(mid, p). maxAge < now - createdAt (pendings m p)) (pending m)
      in m\<lparr>pendings := offerTimeoutAll (pendings m) (map snd expired),
           pending := filter (\<lambda>(mid, p). \<not> maxAge < now - createdAt (pendings m p))
                        (pending m)\<rparr>)"

section \<open>Proxy front door (package \<open>proxy\<close> of the server)\<close>

text \<open>
  An inbound request as the handlers see it: \<open>Header\<close> is \<open>r.Header\<close>, a map from a header
  name to the list of its values, given as the sequence of entries a \<open>range\<close> loop visits
  (Go fixes no order); \<open>reqBody\<close> is what \<open>io.ReadAll\<close> returns.
\<close>

record HTTPRequest =
  Method :: string
  Path :: string
  Header :: "(string \<times> string list) list"
  reqBody :: string

record HTTPResponse =
  StatusCode :: int
  outHeaders :: "(string \<times> string) list"
  outBody :: string

text \<open>\<open>http.Error\<close> and \<open>http.NotFound\<close> of the standard library.\<close>

definition httpError :: "string \<Rightarrow> int \<Rightarrow> HTTPResponse" where
  "httpError msg code =
     \<lparr>StatusCode = code,
      outHeaders = [(''Content-Type'', ''text/plain; charset=utf-8''),
                    (''X-Content-Type-Options'', ''nosniff'')],
      outBody = msg @ [CHR 0x0A]\<rparr>"

definition httpNotFound :: HTTPResponse where
  "httpNotFound = httpError ''404 page not found'' 404"

text \<open>The header loop of \<open>forwardRequestToClient\<close>, writing into the payload's map.\<close>

fun copyHeaders ::
    "(string \<times> string list) list \<Rightarrow> (string \<rightharpoonup> string) \<Rightarrow> (string \<rightharpoonup> string)" where
  "copyHeaders [] headers = headers"
| "copyHeaders ((name, values) # rest) headers =
     (if 0 < length values then copyHeaders rest (headers(name \<mapsto> hd values))
      else copyHeaders rest headers)"

definition buildRequestPayload :: "HTTPRequest \<Rightarrow> ServerRoute \<Rightarrow> string \<Rightarrow> RequestPayload" where
  "buildRequestPayload r selectedRoute urlPath =
     \<lparr>URLSuffix = urlPath,
      HTTPMethod = Method r,
      Headers = copyHeaders (Header r) Map.empty,
      Params = Map.empty,
      Body = reqBody r,
      TimeoutMS = 0,
      TargetsJSON = routeTargetsJSON selectedRoute,
      DeliveryPolicy = routeDeliveryPolicy selectedRoute,
      RouteMode = routeRouteMode selectedRoute\<rparr>"

text \<open>
  \<open>textproto.CanonicalMIMEHeaderKey\<close>, which \<open>Header.Set\<close> applies to a header name: a name
  made of token characters only gets its first letter and every letter after a hyphen in
  upper case and all other letters in lower case; any other name is left as it is.
\<close>

definition validHeaderFieldByte :: "char \<Rightarrow> bool" where
  "validHeaderFieldByte c =
     (let n = (of_char c :: nat) in
      (48 \<le> n \<and> n \<le> 57) \<or> (65 \<le> n \<and> n \<le> 90) \<or> (97 \<le> n \<and> n \<le> 122)
      \<or> n \<in> {33, 35, 36, 37, 38, 39, 42, 43, 45, 46, 94, 95, 96, 124, 126})"

fun canonicalLetters :: "bool \<Rightarrow> string \<Rightarrow> string" where
  "canonicalLetters upper [] = []"
| "canonicalLetters upper (c # cs) =
     (let n = (of_char c :: nat);
          c = (if upper \<and> 97 \<le> n \<and> n \<le> 122 then char_of (n - 32)
               else if \<not> upper \<and> 65 \<le> n \<and> n \<le> 90 then char_of (n + 32)
               else c)
      in c # canonicalLetters (c = CHR ''-'') cs)"

definition CanonicalMIMEHeaderKey :: "string \<Rightarrow> string" where
  "CanonicalMIMEHeaderKey s =
     (if list_all validHeaderFieldByte s then canonicalLetters True s else s)"

text \<open>
  The loop of \<open>forwardRequestToClient\<close> over the headers of the response, in the order
  the \<open>range\<close> visits them: \<open>w.Header().Set(name, value)\<close> stores the value under the
  canonical form of the name, replacing what is there. The second argument is the header
  map of the reply so far.
\<close>

fun setResponseHeaders ::
    "(string \<times> string) list \<Rightarrow> (string \<times> string) list \<Rightarrow> (string \<times> string) list" where
  "setResponseHeaders [] h = h"
| "setResponseHeaders ((name, v) # rest) h =
     setResponseHeaders rest (AList.update (CanonicalMIMEHeaderKey name) v h)"

text \<open>
  \<open>forwardRequestToClient\<close> in its two halves around the wait inside
  \<open>SendRequestAndWait\<close>. The reply is what the handler writes to the caller once
  \<open>SendRequestAndWait\<close> has returned: any error becomes status 502, a response is
  copied out. \<open>WriteHeader\<close> panics on a status outside 100..999; that is \<open>None\<close>.
\<close>

definition forwardRequestToClient_send ::
    "int \<Rightarrow> Manager \<Rightarrow> HTTPRequest \<Rightarrow> ServerRoute \<Rightarrow> string \<Rightarrow> string \<Rightarrow> nat
       \<Rightarrow> (wait_error \<times> Manager) + Manager" where
  "forwardRequestToClient_send now m r selectedRoute urlPath mid p =
     SendRequestAndWait_send now m (routeClientID selectedRoute) mid p
       (buildRequestPayload r selectedRoute urlPath)"

definition forwardRequestToClient_reply ::
    "wait_error + ResponsePayload \<Rightarrow> HTTPResponse option" where
  "forwardRequestToClient_reply result =
     (case result of
        Inl err \<Rightarrow> Some (httpError ''Backend request failed'' 502)
      | Inr response \<Rightarrow>
          if HTTPStatus response < 100 \<or> 999 < HTTPStatus response then None
          else Some \<lparr>StatusCode = HTTPStatus response,
                     outHeaders = setResponseHeaders (respHeaders response) [],
                     outBody = (case respBody response of None \<Rightarrow> [] | Some b \<Rightarrow> b)\<rparr>)"

definition forwardRequestToClient_wait ::
    "int \<Rightarrow> bool \<Rightarrow> Manager \<Rightarrow> nat \<Rightarrow> (HTTPResponse option \<times> Manager) option" where
  "forwardRequestToClient_wait now preferResult m p =
     (case SendRequestAndWait_wait now preferResult m p of
        None \<Rightarrow> None
      | Some (result, m') \<Rightarrow> Some (forwardRequestToClient_reply result, m'))"

text \<open>The loop that picks the first route whose client is connected and enabled.\<close>

fun selectRoute :: "Manager \<Rightarrow> ServerRoute list \<Rightarrow> ServerRoute option" where
  "selectRoute m [] = None"
| "selectRoute m (route # rest) =
     (if IsClientConnected m (routeClientID route) then
        (case GetClient (db m) (routeClientID route) of
           None \<Rightarrow> selectRoute m rest
         | Some clientInfo \<Rightarrow>
             if Enabled clientInfo \<noteq> 1 then selectRoute m rest else Some route)
      else selectRoute m rest)"

text \<open>
  What a handler does with a request: it answers at once, or it calls
  \<open>forwardRequestToClient\<close> with the selected route and the path.
\<close>

datatype proxy_step = Reply HTTPResponse | Forward ServerRoute string

text \<open>
  The part that \<open>HandleProxyRequest\<close> and \<open>HandleDirectProxyRequest\<close> both carry, from the
  listing of the routes on. \<open>sort.Slice\<close> gives no order among routes of equal priority:
  \<open>sortSlice\<close> stands for the library's sort, called with the \<open>less\<close> function of the
  source.
\<close>

definition routeRequest ::
    "((ServerRoute \<Rightarrow> ServerRoute \<Rightarrow> bool) \<Rightarrow> ServerRoute list \<Rightarrow> ServerRoute list)
       \<Rightarrow> Manager \<Rightarrow> string \<Rightarrow> proxy_step" where
  "routeRequest sortSlice m urlPath =
     (case ListServerRoutes (db m) of
        None \<Rightarrow> Reply (httpError ''Internal server error'' 500)
      | Some routes \<Rightarrow>
          (let matchedRoutes =
                 filter (\<lambda>route. MatchPattern (routeURLSuffix route) urlPath \<and> IsEnabled route)
                   routes;
               matchedRoutes =
                 (if 1 < length matchedRoutes then
                    sortSlice (\<lambda>ri rj. GetPatternPriority (routeURLSuffix rj)
                                         < GetPatternPriority (routeURLSuffix ri))
                      matchedRoutes
                  else matchedRoutes)
           in if length matchedRoutes = 0 then Reply (httpError ''Route not found'' 404)
              else (case selectRoute m matchedRoutes of
                      None \<Rightarrow> Reply (httpError ''No available backend'' 503)
                    | Some selectedRoute \<Rightarrow> Forward selectedRoute urlPath)))"

definition HandleProxyRequest ::
    "((ServerRoute \<Rightarrow> ServerRoute \<Rightarrow> bool) \<Rightarrow> ServerRoute list \<Rightarrow> ServerRoute list)
       \<Rightarrow> Manager \<Rightarrow> HTTPRequest \<Rightarrow> proxy_step" where
  "HandleProxyRequest sortSlice m r =
     (let urlPath = TrimPrefix (Path r) ''/proxy'' in
      if urlPath = [] then Reply (httpError ''Invalid proxy path'' 400)
      else routeRequest sortSlice m urlPath)"

definition HandleDirectProxyRequest ::
    "((ServerRoute \<Rightarrow> ServerRoute \<Rightarrow> bool) \<Rightarrow> ServerRoute list \<Rightarrow> ServerRoute list)
       \<Rightarrow> Manager \<Rightarrow> HTTPRequest \<Rightarrow> proxy_step" where
  "HandleDirectProxyRequest sortSlice m r =
     (if Path r = ''/upload'' \<or> Path r = ''/health'' \<or> Path r = ''/status''
         \<or> HasPrefix (Path r) ''/proxy/''
      then Reply httpNotFound
      else
        (let urlPath = Path r in
         if urlPath = ''/'' then Reply (httpError ''Root path not allowed'' 400)
         else routeRequest sortSlice m urlPath))"

text \<open>One sort that \<open>sort.Slice\<close> may perform: insertion from the right, stable.\<close>

fun insertBy :: "('a \<Rightarrow> 'a \<Rightarrow> bool) \<Rightarrow> 'a \<Rightarrow> 'a list \<Rightarrow> 'a list" where
  "insertBy lessFn x [] = [x]"
| "insertBy lessFn x (y # ys) = (if lessFn y x then y # insertBy lessFn x ys else x # y # ys)"

definition insertionSort :: "('a \<Rightarrow> 'a \<Rightarrow> bool) \<Rightarrow> 'a list \<Rightarrow> 'a list" where
  "insertionSort lessFn xs = foldr (insertBy lessFn) xs []"

section \<open>Dialling and admission (\<open>Connector.buildWebSocketURL\<close>, \<open>Manager.HandleWebSocket\<close>)\<close>














section \<open>Example states\<close>


text \<open>
  A store with one enabled client, \<open>agent-1\<close>, and one enabled route whose pattern is the
  literal path \<open>/health\<close>; and a manager over that store with the agent connected.
\<close>

definition healthRoute :: ServerRoute where
  "healthRoute =
     \<lparr>ID = 1, routeURLSuffix = ''/health'', routeClientID = ''agent-1'',
      routeTargetsJSON = ''http://127.0.0.1:9000'', routeDeliveryPolicy = [],
      routeRouteMode = ''original_path'', routeEnabled = 1\<rparr>"

definition agentOneRepository :: Repository where
  "agentOneRepository =
     \<lparr>available = True,
      clientRows = [(''agent-1'',
                     \<lparr>clientRowID = ''agent-1'', AuthToken = ''s3cret'', Status = ''offline'',
                      Enabled = 1, LastSeenTS = None, clientLocalIPs = []\<rparr>)],
      routeRows = [healthRoute],
      pendingRows = []\<rparr>"

definition agentOneServing :: Manager where
  "agentOneServing =
     handleConnection_enter 1 (NewManager 1000 30000 10000 agentOneRepository) 10 ''agent-1''"

text \<open>A request that repeats the header \<open>Accept\<close>.\<close>

definition twoAcceptValues :: HTTPRequest where
  "twoAcceptValues =
     \<lparr>Method = ''GET'', Path = ''/api/users'',
      Header = [(''Accept'', [''text/html'', ''application/json'']), (''X-Empty'', [])],
      reqBody = []\<rparr>"



text \<open>
  Decoders for three frame texts: \<open>frame: CONTROL NOPE\<close> stands for the JSON text of a
  well-formed frame of type CONTROL whose op is \<open>NOPE\<close>, \<open>frame: RESPONSE msg-1\<close> for a
  RESPONSE frame for \<open>msg-1\<close> whose payload \<open>payload: 200 OK\<close> decodes to a response with
  status 200; every other text is rejected as malformed.
\<close>

definition okResponse :: ResponsePayload where
  "okResponse =
     \<lparr>HTTPStatus = 200, respHeaders = [(''Content-Type'', ''text/plain'')],
      respBody = Some ''OK'', LatencyMS = 12, Error = None\<rparr>"

definition responseFrame :: "string Message" where
  "responseFrame =
     \<lparr>Type = ''MESSAGE'', Op = ''RESPONSE'', MsgID = Some ''msg-1'', ClientID = ''agent-1'',
      TS = 3, Payload = ''payload: 200 OK''\<rparr>"

definition sampleCodec :: codec where
  "sampleCodec =
     \<lparr>unmarshalMessage =
        (\<lambda>data. if data = ''frame: CONTROL NOPE''
                 then Some \<lparr>Type = ''CONTROL'', Op = ''NOPE'', MsgID = None,
                            ClientID = ''agent-1'', TS = 3, Payload = []\<rparr>
                 else if data = ''frame: RESPONSE msg-1'' then Some responseFrame
                 else None),
      parseRegister = (\<lambda>payload. None),
      parsePing = (\<lambda>payload. None),
      parsePong = (\<lambda>payload. None),
      parseResponse = (\<lambda>payload. if payload = ''payload: 200 OK'' then Some okResponse else None),
      parseACK = (\<lambda>payload. None),
      parseError = (\<lambda>payload. None)\<rparr>"

text \<open>
  The manager after the proxy has sent the request \<open>msg-1\<close> for \<open>GET /health\<close> to
  \<open>agent-1\<close>, with the pending context at address 20; and the same manager once the
  agent's response has been handled.
\<close>

definition requestSent :: Manager where
  "requestSent =
     (case forwardRequestToClient_send 2 agentOneServing (twoAcceptValues\<lparr>Path := ''/health''\<rparr>)
             healthRoute ''/health'' ''msg-1'' 20 of
        Inl (err, m) \<Rightarrow> m
      | Inr m \<Rightarrow> m)"

definition responseArrived :: Manager where
  "responseArrived = handleResponse sampleCodec 3 requestSent 10 responseFrame"

section \<open>Pattern matcher: results\<close>

text \<open>
  C4. The interior literals of a \<open>**\<close> pattern are each searched for anywhere in the
  remaining path, not one after the other: the pattern \<open>/a/**/b/**/c/**/d\<close> asks for
  \<open>b\<close> before \<open>c\<close>, yet \<open>MatchPattern\<close> accepts the path \<open>/a/c/b/d\<close>, where \<open>b\<close> occurs
  only after \<open>c\<close>.
\<close>

theorem MatchPattern_interior_literals_out_of_order:
  "MatchPattern ''/a/**/b/**/c/**/d'' ''/a/c/b/d'' = True"
  by code_simp

text \<open>
  C5. The \<open>**\<close> branch of \<open>GetPatternPriority\<close> returns before the floor is applied:
  a pattern with seven \<open>**\<close> wildcards has priority \<open>-50\<close>.
\<close>

theorem GetPatternPriority_negative_for_seven_double_wildcards:
  "GetPatternPriority ''/**/**/**/**/**/**/**'' = - 50"
  by code_simp

text \<open>
  C6. \<open>NormalizePattern\<close> removes one trailing slash only, so on a pattern that ends in
  two slashes a second application still changes the result: \<open>/a//\<close> becomes \<open>/a/\<close>,
  which becomes \<open>/a\<close>.
\<close>

theorem NormalizePattern_not_idempotent_on_double_trailing_slash:
  "NormalizePattern ''/a//'' = ''/a/''
   \<and> NormalizePattern (NormalizePattern ''/a//'') = ''/a''"
  by code_simp

section \<open>Connection table: results\<close>




section \<open>Proxy front door: results\<close>

lemma copyHeaders_lookup:
  "distinct (map fst hs) \<Longrightarrow>
   copyHeaders hs headers name =
     (case map_of hs name of
        None \<Rightarrow> headers name
      | Some values \<Rightarrow> (case values of [] \<Rightarrow> headers name | v # others \<Rightarrow> Some v))"
proof (induction hs arbitrary: headers)
  case Nil
  then show ?case by simp
next
  case (Cons h hs)
  obtain n vs where h: "h = (n, vs)" by (cases h)
  from Cons.prems h have d: "distinct (map fst hs)" and fresh: "n \<notin> fst ` set hs"
    by simp_all
  show ?case
  proof (cases "name = n")
    case True
    with fresh have none: "map_of hs name = None"
      by (simp add: map_of_eq_None_iff)
    show ?thesis
      using Cons.IH [OF d] h True none by (cases vs) simp_all
  next
    case False
    then show ?thesis
      using Cons.IH [OF d] h by (cases vs) (simp_all split: option.splits list.splits)
  qed
qed

text \<open>
  C9. The header names of a request are the keys of a map, so no name occurs twice among
  the entries. The payload built for the agent then holds, under each name, the first
  value of that header and nothing else: a header with no value is left out, and the
  second and later values of a header appear nowhere in the payload.
\<close>

theorem forwardRequestToClient_keeps_first_header_value_only:
  assumes "distinct (map fst (Header r))"
  shows "Headers (buildRequestPayload r selectedRoute urlPath) name =
           (case map_of (Header r) name of
              None \<Rightarrow> None
            | Some values \<Rightarrow> (case values of [] \<Rightarrow> None | v # others \<Rightarrow> Some v))"
  using copyHeaders_lookup [OF assms, of Map.empty name]
  by (simp add: buildRequestPayload_def)

theorem forwardRequestToClient_keeps_first_header_value_only_witness:
  "distinct (map fst (Header twoAcceptValues))
   \<and> Headers (buildRequestPayload twoAcceptValues healthRoute ''/api/users'') ''Accept''
       = Some ''text/html''"
proof -
  have h: "distinct (map fst (Header twoAcceptValues))"
    by (simp add: twoAcceptValues_def)
  from forwardRequestToClient_keeps_first_header_value_only
         [OF h, of healthRoute "''/api/users''" "''Accept''"]
  have "Headers (buildRequestPayload twoAcceptValues healthRoute ''/api/users'') ''Accept''
          = Some ''text/html''"
    by (simp add: twoAcceptValues_def)
  with h show ?thesis by blast
qed

text \<open>
  C10. \<open>HandleDirectProxyRequest\<close> answers 404 for the paths \<open>/upload\<close>, \<open>/health\<close> and
  \<open>/status\<close> and for every path under \<open>/proxy/\<close>, before it looks at any route: whatever
  routes the store holds and whichever agents are connected, the request is not
  forwarded.
\<close>

theorem HandleDirectProxyRequest_reserved_paths_are_not_forwarded:
  assumes "Path r = ''/upload'' \<or> Path r = ''/health'' \<or> Path r = ''/status''
           \<or> HasPrefix (Path r) ''/proxy/''"
  shows "HandleDirectProxyRequest sortSlice m r = Reply httpNotFound
         \<and> StatusCode httpNotFound = 404"
  using assms by (simp add: HandleDirectProxyRequest_def httpNotFound_def httpError_def)

text \<open>
  The witness: the store holds an enabled route for the literal path \<open>/health\<close> and its
  agent is connected, so the routing step itself would forward the request; the handler
  still answers 404.
\<close>

theorem HandleDirectProxyRequest_reserved_paths_are_not_forwarded_witness:
  "(Path (twoAcceptValues\<lparr>Path := ''/health''\<rparr>) = ''/upload''
      \<or> Path (twoAcceptValues\<lparr>Path := ''/health''\<rparr>) = ''/health''
      \<or> Path (twoAcceptValues\<lparr>Path := ''/health''\<rparr>) = ''/status''
      \<or> HasPrefix (Path (twoAcceptValues\<lparr>Path := ''/health''\<rparr>)) ''/proxy/'')
   \<and> routeRequest insertionSort agentOneServing ''/health'' = Forward healthRoute ''/health''
   \<and> HandleDirectProxyRequest insertionSort agentOneServing
         (twoAcceptValues\<lparr>Path := ''/health''\<rparr>) = Reply httpNotFound"
proof -
  let ?r = "twoAcceptValues\<lparr>Path := ''/health''\<rparr>"
  have h: "Path ?r = ''/upload'' \<or> Path ?r = ''/health'' \<or> Path ?r = ''/status''
           \<or> HasPrefix (Path ?r) ''/proxy/''"
    by simp
  have mp: "MatchPattern ''/health'' ''/health''"
    by (subst MatchPattern.simps) simp
  have fwd: "routeRequest insertionSort agentOneServing ''/health''
               = Forward healthRoute ''/health''"
    by (simp add: routeRequest_def ListServerRoutes_def agentOneServing_def
        handleConnection_enter_def registerClient_def NewManager_def newClientConn_def
        agentOneRepository_def healthRoute_def IsEnabled_def mp IsClientConnected_def
        GetClient_def Let_def)
  from HandleDirectProxyRequest_reserved_paths_are_not_forwarded [OF h, of insertionSort agentOneServing]
  have "HandleDirectProxyRequest insertionSort agentOneServing ?r = Reply httpNotFound"
    by blast
  with h fwd show ?thesis by blast
qed

section \<open>Dialling: results\<close>


section \<open>Reading frames: results\<close>

text \<open>
  C7, as stated, fails: on a text frame that is not valid JSON the task logs and returns,
  the read loop goes round again and the connection's context is not cancelled, so the
  socket stays open.
\<close>

theorem malformed_json_frame_does_not_close_counterexample:
  "unmarshalMessage sampleCodec ''not json'' = None
   \<and> fst (clientReader_step sampleCodec 5 True agentOneServing 10
             (ReadFrame TextMessage ''not json'')) = True
   \<and> \<not> connDone (conns (snd (clientReader_step sampleCodec 5 True agentOneServing 10
                                  (ReadFrame TextMessage ''not json''))) 10)"
  by (simp add: sampleCodec_def clientReader_step_def handleMessage_def Execute_def
      agentOneServing_def handleConnection_enter_def registerClient_def NewManager_def
      newClientConn_def TextMessage_def PingMessage_def PongMessage_def CloseMessage_def
      BinaryMessage_def Let_def)

text \<open>
  C7, amended. On a live connection, a text frame whose content is not valid JSON is
  logged and ignored, exactly as a well-formed frame with an unknown op is: the round of
  the read loop only records the time of the frame on the connection, changes nothing
  else in the manager, cancels no context, and the loop goes on reading, so the socket
  stays open.
\<close>

theorem malformed_json_and_unknown_op_frames_are_ignored:
  assumes live: "\<not> connDone (conns m client)"
      and malformed: "unmarshalMessage cd bad = None"
      and wellformed: "unmarshalMessage cd good = Some msg"
      and unknown: "(Type msg = MessageTypeControl
                       \<and> Op msg \<noteq> OpRegister \<and> Op msg \<noteq> OpPong \<and> Op msg \<noteq> OpPing)
                    \<or> (Type msg = MessageTypeMessage
                       \<and> Op msg \<noteq> OpRequest \<and> Op msg \<noteq> OpResponse)"
  shows "clientReader_step cd now poolAccepts m client (ReadFrame TextMessage bad)
           = (True, m\<lparr>conns := (conns m)(client := (conns m client)
                                   \<lparr>lastSeen := now, lastActivity := now\<rparr>)\<rparr>)
         \<and> clientReader_step cd now poolAccepts m client (ReadFrame TextMessage good)
           = (True, m\<lparr>conns := (conns m)(client := (conns m client)
                                   \<lparr>lastSeen := now, lastActivity := now\<rparr>)\<rparr>)"
proof -
  let ?m = "m\<lparr>conns := (conns m)(client := (conns m client)
                                   \<lparr>lastSeen := now, lastActivity := now\<rparr>)\<rparr>"
  have kinds: "TextMessage \<noteq> PingMessage" "TextMessage \<noteq> PongMessage"
    "TextMessage \<noteq> CloseMessage" "TextMessage \<noteq> BinaryMessage"
    by (simp_all add: TextMessage_def PingMessage_def PongMessage_def CloseMessage_def
        BinaryMessage_def)
  have bad: "Execute cd now ?m client TextMessage bad = (True, ?m)"
    using malformed kinds by (simp add: Execute_def)
  have types: "MessageTypeMessage \<noteq> MessageTypeControl"
    by (simp add: MessageTypeMessage_def MessageTypeControl_def)
  have good: "Execute cd now ?m client TextMessage good = (True, ?m)"
    using wellformed unknown kinds types
    by (auto simp add: Execute_def handleControlMessage_def handleDataMessage_def)
  show ?thesis
    using live bad good by (simp add: clientReader_step_def handleMessage_def Let_def)
qed

theorem malformed_json_and_unknown_op_frames_are_ignored_witness:
  "\<not> connDone (conns agentOneServing 10)
   \<and> unmarshalMessage sampleCodec ''not json'' = None
   \<and> (\<exists>msg. unmarshalMessage sampleCodec ''frame: CONTROL NOPE'' = Some msg
          \<and> Type msg = MessageTypeControl
          \<and> Op msg \<noteq> OpRegister \<and> Op msg \<noteq> OpPong \<and> Op msg \<noteq> OpPing)
   \<and> fst (clientReader_step sampleCodec 5 True agentOneServing 10
             (ReadFrame TextMessage ''not json'')) = True
   \<and> clientReader_step sampleCodec 5 True agentOneServing 10
         (ReadFrame TextMessage ''frame: CONTROL NOPE'')
       = clientReader_step sampleCodec 5 True agentOneServing 10
           (ReadFrame TextMessage ''not json'')"
proof -
  let ?msg = "\<lparr>Type = ''CONTROL'', Op = ''NOPE'', MsgID = None,
                ClientID = ''agent-1'', TS = 3, Payload = []\<rparr> :: string Message"
  have live: "\<not> connDone (conns agentOneServing 10)"
    by (simp add: agentOneServing_def handleConnection_enter_def registerClient_def
        NewManager_def newClientConn_def Let_def)
  have malformed: "unmarshalMessage sampleCodec ''not json'' = None"
    by (simp add: sampleCodec_def)
  have wellformed: "unmarshalMessage sampleCodec ''frame: CONTROL NOPE'' = Some ?msg"
    by (simp add: sampleCodec_def)
  have unknown: "(Type ?msg = MessageTypeControl
                       \<and> Op ?msg \<noteq> OpRegister \<and> Op ?msg \<noteq> OpPong \<and> Op ?msg \<noteq> OpPing)
                    \<or> (Type ?msg = MessageTypeMessage
                       \<and> Op ?msg \<noteq> OpRequest \<and> Op ?msg \<noteq> OpResponse)"
    by (simp add: MessageTypeControl_def OpRegister_def OpPong_def OpPing_def)
  note t = malformed_json_and_unknown_op_frames_are_ignored
             [OF live malformed wellformed unknown, of 5 True]
  from t have a: "fst (clientReader_step sampleCodec 5 True agentOneServing 10
             (ReadFrame TextMessage ''not json'')) = True"
    by simp
  from t have b: "clientReader_step sampleCodec 5 True agentOneServing 10
         (ReadFrame TextMessage ''frame: CONTROL NOPE'')
       = clientReader_step sampleCodec 5 True agentOneServing 10
           (ReadFrame TextMessage ''not json'')"
    by simp
  have c: "\<exists>msg. unmarshalMessage sampleCodec ''frame: CONTROL NOPE'' = Some msg
          \<and> Type msg = MessageTypeControl
          \<and> Op msg \<noteq> OpRegister \<and> Op msg \<noteq> OpPong \<and> Op msg \<noteq> OpPing"
    using wellformed
    by (simp add: MessageTypeControl_def OpRegister_def OpPong_def OpPing_def)
  from live malformed c a b show ?thesis by blast
qed

section \<open>Pending requests: results\<close>

lemma cleanupPending_removes: "map_of (pending (cleanupPending m mid p)) mid = None"
  by (simp add: cleanupPending_def delete_conv')

lemma notifyPending_full_slot:
  assumes "map_of (pending m) mid = None
           \<or> (\<exists>q. map_of (pending m) mid = Some q \<and> resultCh (pendings m q) \<noteq> [])"
  shows "pendings (notifyPending m mid resp) = pendings m
         \<and> pending (notifyPending m mid resp) = pending m"
  using assms by (auto simp add: notifyPending_def trySend_def)

text \<open>
  C3. When the waiting caller returns, it returns with one outcome: the timeout error,
  which needs the request's context to be done (its deadline passed or it was cancelled),
  or what it took out of the result slot, a response or the nil-response error; and the
  entry of its \<open>msg_id\<close> is out of the pending table. A RESPONSE frame for a \<open>msg_id\<close> that
  has no entry, or whose entry has its result slot full, delivers nothing: every pending
  context and the pending table are as before.
\<close>

theorem pending_request_resolved_at_most_once:
  assumes returned: "SendRequestAndWait_wait now preferResult m p = Some (outcome, m')"
      and frame: "MsgID msg = Some mid"
      and nowaiter: "map_of (pending m2) mid = None
                     \<or> (\<exists>q. map_of (pending m2) mid = Some q \<and> resultCh (pendings m2 q) \<noteq> [])"
  shows "map_of (pending m') (msgID (pendings m p)) = None
         \<and> ((outcome = Inl RequestTimedOut \<and> ctxDone (pendings m p))
             \<or> (\<exists>response rest. resultCh (pendings m p) = response # rest
                   \<and> outcome = (case response of None \<Rightarrow> Inl NilResponse | Some r \<Rightarrow> Inr r)))
         \<and> pendings (handleResponse cd now2 m2 client msg) = pendings m2
         \<and> pending (handleResponse cd now2 m2 client msg) = pending m2"
proof -
  have removed: "map_of (pending m') (msgID (pendings m p)) = None"
    using returned
    by (auto simp add: SendRequestAndWait_wait_def Let_def cleanupPending_removes
        split: list.splits if_splits option.splits)
  have one: "(outcome = Inl RequestTimedOut \<and> ctxDone (pendings m p))
             \<or> (\<exists>response rest. resultCh (pendings m p) = response # rest
                   \<and> outcome = (case response of None \<Rightarrow> Inl NilResponse | Some r \<Rightarrow> Inr r))"
    using returned
    by (auto simp add: SendRequestAndWait_wait_def Let_def
        split: list.splits if_splits option.splits)
  have dropped: "pendings (handleResponse cd now2 m2 client msg) = pendings m2
                 \<and> pending (handleResponse cd now2 m2 client msg) = pending m2"
  proof (cases "parseResponse cd (Payload msg)")
    case None
    then show ?thesis using frame by (simp add: handleResponse_def)
  next
    case (Some responsePayload)
    let ?state = "if 400 \<le> HTTPStatus responsePayload \<or> Error responsePayload \<noteq> None
                  then MessageStateFailed else MessageStateDone"
    let ?m = "m2\<lparr>db := UpdatePendingMessageResponse (db m2) now2 mid ?state responsePayload\<rparr>"
    have "map_of (pending ?m) mid = None
          \<or> (\<exists>q. map_of (pending ?m) mid = Some q \<and> resultCh (pendings ?m q) \<noteq> [])"
      using nowaiter by simp
    from notifyPending_full_slot [OF this, of responsePayload]
    have "pendings (notifyPending ?m mid responsePayload) = pendings m2
          \<and> pending (notifyPending ?m mid responsePayload) = pending m2"
      by simp
    then show ?thesis using frame Some by (simp add: handleResponse_def Let_def)
  qed
  from removed one dropped show ?thesis by blast
qed

lemma requestSent_pending: "pending requestSent = [(''msg-1'', 20)]"
  by (simp add: requestSent_def forwardRequestToClient_send_def SendRequestAndWait_send_def
      IsClientConnected_def SendToClient_def agentOneServing_def handleConnection_enter_def
      registerClient_def NewManager_def newClientConn_def healthRoute_def Let_def)

lemma requestSent_context:
  "pendings requestSent 20 = \<lparr>msgID = ''msg-1'', resultCh = [], ctxDone = False, createdAt = 2\<rparr>"
  by (simp add: requestSent_def forwardRequestToClient_send_def SendRequestAndWait_send_def
      IsClientConnected_def SendToClient_def agentOneServing_def handleConnection_enter_def
      registerClient_def NewManager_def newClientConn_def healthRoute_def Let_def)

lemma requestSent_queued: "length (sendQueue (conns requestSent 10)) = 1"
  by (simp add: requestSent_def forwardRequestToClient_send_def SendRequestAndWait_send_def
      IsClientConnected_def SendToClient_def agentOneServing_def handleConnection_enter_def
      registerClient_def NewManager_def newClientConn_def healthRoute_def Let_def)

lemma responseArrived_pending: "pending responseArrived = [(''msg-1'', 20)]"
  by (simp add: responseArrived_def handleResponse_def responseFrame_def sampleCodec_def
      notifyPending_def requestSent_pending Let_def)

lemma responseArrived_context:
  "pendings responseArrived 20
     = \<lparr>msgID = ''msg-1'', resultCh = [Some okResponse], ctxDone = False, createdAt = 2\<rparr>"
  by (simp add: responseArrived_def handleResponse_def responseFrame_def sampleCodec_def
      notifyPending_def trySend_def requestSent_pending requestSent_context Let_def)

theorem pending_request_resolved_at_most_once_witness:
  "(\<exists>m'. SendRequestAndWait_wait 4 True responseArrived 20 = Some (Inr okResponse, m')
          \<and> map_of (pending m') ''msg-1'' = None)
   \<and> MsgID responseFrame = Some ''msg-1''
   \<and> (\<exists>q. map_of (pending responseArrived) ''msg-1'' = Some q
          \<and> resultCh (pendings responseArrived q) \<noteq> [])
   \<and> pendings (handleResponse sampleCodec 6 responseArrived 10 responseFrame)
       = pendings responseArrived"
proof -
  obtain m' where w: "SendRequestAndWait_wait 4 True responseArrived 20 = Some (Inr okResponse, m')"
    by (simp add: SendRequestAndWait_wait_def responseArrived_context Let_def)
  have frame: "MsgID responseFrame = Some ''msg-1''"
    by (simp add: responseFrame_def)
  have full: "\<exists>q. map_of (pending responseArrived) ''msg-1'' = Some q
                \<and> resultCh (pendings responseArrived q) \<noteq> []"
    by (simp add: responseArrived_pending responseArrived_context)
  then have nowaiter: "map_of (pending responseArrived) ''msg-1'' = None
                \<or> (\<exists>q. map_of (pending responseArrived) ''msg-1'' = Some q
                       \<and> resultCh (pendings responseArrived q) \<noteq> [])"
    by blast
  note t = pending_request_resolved_at_most_once
             [OF w frame nowaiter, of sampleCodec 6 10]
  from t have "map_of (pending m') (msgID (pendings responseArrived 20)) = None" by blast
  then have a: "map_of (pending m') ''msg-1'' = None"
    by (simp add: responseArrived_context)
  from t have b: "pendings (handleResponse sampleCodec 6 responseArrived 10 responseFrame)
                    = pendings responseArrived"
    by blast
  from w a frame full b show ?thesis by blast
qed

text \<open>
  C2. The request \<open>msg-1\<close> has been queued for the agent and no response arrives before the
  deadline of its context passes. \<open>SendRequestAndWait\<close> then marks the stored message
  failed and returns its timeout error, and \<open>forwardRequestToClient\<close> answers any error
  of \<open>SendRequestAndWait\<close> with 502: the caller gets 502, as it does when the frame could
  not be sent, not 504.
\<close>

theorem request_timeout_is_answered_502_not_504:
  "length (sendQueue (conns requestSent 10)) = 1
   \<and> resultCh (pendings requestSent 20) = []
   \<and> (case forwardRequestToClient_wait 30002 True (deadlineElapsed requestSent 20) 20 of
         None \<Rightarrow> False
       | Some (reply, m') \<Rightarrow>
           map_option StatusCode reply = Some 502
           \<and> map_option State (map_of (pendingRows (db m')) ''msg-1'') = Some MessageStateFailed
           \<and> map_of (pending m') ''msg-1'' = None)"
proof -
  have ctx: "pendings (deadlineElapsed requestSent 20) 20
               = \<lparr>msgID = ''msg-1'', resultCh = [], ctxDone = True, createdAt = 2\<rparr>"
    by (simp add: deadlineElapsed_def requestSent_context)
  have dbs: "db (deadlineElapsed requestSent 20) = db requestSent"
    by (simp add: deadlineElapsed_def)
  have pend: "pending (deadlineElapsed requestSent 20) = pending requestSent"
    by (simp add: deadlineElapsed_def)
  have row: "map_option State
               (map_of (pendingRows (UpdatePendingMessageState (db requestSent) 30002 ''msg-1''
                                       MessageStateFailed)) ''msg-1'')
             = Some MessageStateFailed"
    by (simp add: requestSent_def forwardRequestToClient_send_def SendRequestAndWait_send_def
      IsClientConnected_def SendToClient_def agentOneServing_def handleConnection_enter_def
      registerClient_def NewManager_def newClientConn_def healthRoute_def Let_def
      CreatePendingMessage_def agentOneRepository_def UpdatePendingMessageState_def
      updateRow_def)
  have "case forwardRequestToClient_wait 30002 True (deadlineElapsed requestSent 20) 20 of
         None \<Rightarrow> False
       | Some (reply, m') \<Rightarrow>
           map_option StatusCode reply = Some 502
           \<and> map_option State (map_of (pendingRows (db m')) ''msg-1'') = Some MessageStateFailed
           \<and> map_of (pending m') ''msg-1'' = None"
    using row
    by (simp add: forwardRequestToClient_wait_def SendRequestAndWait_wait_def ctx dbs
        forwardRequestToClient_reply_def httpError_def cleanupPending_def delete_conv' Let_def)
  with requestSent_queued requestSent_context show ?thesis by simp
qed

end
